theory Spec2Isabelle
  imports Main
begin

section \<open>The BK Integration Settings form controller\<close>

text \<open>
  The repository holds two client scripts for the form of the settings document
  \<^verbatim>\<open>BK Integration Settings\<close>: the main controller
  (\<^verbatim>\<open>bk_integration_settings.js\<close>) and a shorter variant that only derives the URLs.
  Both register handlers with the host form framework; the handlers read the document
  \<^verbatim>\<open>frm.doc\<close>, write fields with \<^verbatim>\<open>frm.set_value\<close> and, in the main controller,
  show an alert and an intro banner.

  Strings are lists of characters, the bytes of the text in UTF-8. What the scripts do to
  strings themselves (concatenation, comparison with literals, removing slashes) and what
  the host's escaping does concern ASCII characters only, and is the same on these bytes
  as on JavaScript's code units. The document's text fields hold a string or nothing
  (\<^verbatim>\<open>undefined\<close>/\<^verbatim>\<open>null\<close>), modelled as \<open>string option\<close>. The check field
  \<^verbatim>\<open>enable_integration\<close> is read through JavaScript truthiness and through the
  host's \<^verbatim>\<open>cint\<close>, so it is kept as a JavaScript value.
\<close>

subsection \<open>JavaScript values\<close>

text \<open>
  The values a check field holds: nothing, a boolean, or a number. \<open>JNum n\<close> stands
  for the integer-valued number \<open>n\<close>. Fractions, \<^verbatim>\<open>NaN\<close> and strings are not
  represented.
\<close>

datatype jsval = JUndefined | JNull | JBool bool | JNum int

text \<open>\<^verbatim>\<open>ToBoolean\<close>, as used by \<^verbatim>\<open>!x\<close>, \<^verbatim>\<open>if (x)\<close> and \<^verbatim>\<open>x || y\<close>.\<close>

fun truthy :: "jsval \<Rightarrow> bool" where
  "truthy JUndefined = False"
| "truthy JNull = False"
| "truthy (JBool b) = b"
| "truthy (JNum n) = (n \<noteq> 0)"

text \<open>\<^verbatim>\<open>x || y\<close> on values.\<close>

definition js_or :: "jsval \<Rightarrow> jsval \<Rightarrow> jsval" where
  "js_or x y = (if truthy x then x else y)"

text \<open>
  \<^verbatim>\<open>x || y\<close> where \<open>x\<close> is a text field and \<open>y\<close> a string: an unset field and
  the empty string are both falsy.
\<close>

fun str_or :: "string option \<Rightarrow> string \<Rightarrow> string" where
  "str_or None y = y"
| "str_or (Some s) y = (if s \<noteq> [] then s else y)"

subsection \<open>The document\<close>

record doc =
  enable_integration :: jsval
  erp_base_url :: "string option"
  auth_url :: "string option"
  validation_url :: "string option"
  payment_notification_url :: "string option"
  payment_callback_url :: "string option"
  payment_reversal_url :: "string option"
  last_test_status :: "string option"
  last_test_message :: "string option"
  last_test_on :: "string option"

text \<open>The five derived fields of a document, in the order the controller writes them.\<close>

definition derived_urls :: "doc \<Rightarrow> string option list" where
  "derived_urls d =
     [auth_url d, validation_url d, payment_notification_url d,
      payment_callback_url d, payment_reversal_url d]"

subsection \<open>URL derivation\<close>

text \<open>
  \<^verbatim>\<open>.replace(/\/+$/, "")\<close>: the pattern is tried at each start position from the left.
  At a position it matches exactly when the rest of the string is a non-empty run of
  \<^verbatim>\<open>/\<close> up to the end; the first match is replaced by the empty string.
\<close>

fun replace_trailing_slashes :: "string \<Rightarrow> string" where
  "replace_trailing_slashes [] = []"
| "replace_trailing_slashes (c # cs) =
     (if c = CHR ''/'' \<and> list_all (\<lambda>x. x = CHR ''/'') cs then []
      else c # replace_trailing_slashes cs)"

text \<open>
  The specification's \<^verbatim>\<open>stripTrailingSlashes\<close>, from its words: strip any trailing
  \<^verbatim>\<open>/\<close> characters from the end.
\<close>

definition stripTrailingSlashes :: "string \<Rightarrow> string" where
  "stripTrailingSlashes s = rev (dropWhile (\<lambda>c. c = CHR ''/'') (rev s))"

text \<open>
  \<^verbatim>\<open>generate_urls\<close> of the main controller. The ambient \<^verbatim>\<open>window.location.origin\<close>
  is the parameter \<open>origin\<close>.
\<close>

definition generate_urls :: "string \<Rightarrow> doc \<Rightarrow> doc" where
  "generate_urls origin d =
     (if \<not> truthy (enable_integration d) then d
      else
        let base = replace_trailing_slashes (str_or (erp_base_url d) (str_or (Some origin) []))
        in d\<lparr>auth_url := Some (base @ ''/api/method/bk_integration.api.authenticate''),
             validation_url := Some (base @ ''/api/method/bk_integration.api.validate_customer''),
             payment_notification_url :=
               Some (base @ ''/api/method/bk_integration.api.payment_notification''),
             payment_callback_url :=
               Some (base @ ''/api/method/bk_integration.api.payment_callback''),
             payment_reversal_url :=
               Some (base @ ''/api/method/bk_integration.api.payment_reversal'')\<rparr>)"

subsection \<open>The host's \<^verbatim>\<open>cint\<close>\<close>

text \<open>
  The variant script calls \<^verbatim>\<open>cint\<close>, a global helper of the host framework that is not
  defined in this repository. It is modelled after the framework's client library:
  \<^verbatim>\<open>
  function cint(v, def) {
    if (v === true) return 1;
    if (v === false) return 0;
    v = v + "";
    if (v !== "0") v = lstrip(v, ["0"]);
    v = parseInt(v);
    if (isNaN(v)) v = def === undefined ? 0 : def;
    return v;
  }
  \<close>
  On the values of the model: a boolean is answered by the first two lines. A number
  \<open>n\<close> becomes its decimal notation, which has no leading zero to strip (the notation
  of 0 is kept whole, a negative one starts with the sign), and \<^verbatim>\<open>parseInt\<close> reads
  \<open>n\<close> back. \<^verbatim>\<open>undefined\<close> and \<^verbatim>\<open>null\<close> become the words \<^verbatim>\<open>undefined\<close> and
  \<^verbatim>\<open>null\<close>, which \<^verbatim>\<open>parseInt\<close> reads as \<^verbatim>\<open>NaN\<close>, and the result is 0.
\<close>

fun cint :: "jsval \<Rightarrow> int" where
  "cint (JBool b) = (if b then 1 else 0)"
| "cint (JNum n) = n"
| "cint JUndefined = 0"
| "cint JNull = 0"

text \<open>
  \<^verbatim>\<open>generate_urls\<close> of the variant script: the flag goes through
  \<^verbatim>\<open>cint(frm.doc.enable_integration || 0)\<close>; the rest is the same text.
\<close>

definition generate_urls_variant :: "string \<Rightarrow> doc \<Rightarrow> doc" where
  "generate_urls_variant origin d =
     (let enabled = cint (js_or (enable_integration d) (JNum 0))
      in if enabled = 0 then d
         else
           let base = replace_trailing_slashes (str_or (erp_base_url d) (str_or (Some origin) []))
           in d\<lparr>auth_url := Some (base @ ''/api/method/bk_integration.api.authenticate''),
                validation_url := Some (base @ ''/api/method/bk_integration.api.validate_customer''),
                payment_notification_url :=
                  Some (base @ ''/api/method/bk_integration.api.payment_notification''),
                payment_callback_url :=
                  Some (base @ ''/api/method/bk_integration.api.payment_callback''),
                payment_reversal_url :=
                  Some (base @ ''/api/method/bk_integration.api.payment_reversal'')\<rparr>)"

subsection \<open>Status rendering\<close>

text \<open>
  \<^verbatim>\<open>String.prototype.toUpperCase\<close> is a built-in of the language: it maps the text
  through the Unicode case table, which is not part of the repository (the table sends
  \<^verbatim>\<open>U+00DF\<close> to \<^verbatim>\<open>SS\<close>, for one). The built-in is the parameter
  \<open>toUpperCase\<close> of \<^verbatim>\<open>render_test_status\<close> below. What is assumed of it is
  \<open>upper_case_mapping\<close>: only the empty string is mapped to the empty string, and a
  string of ASCII characters has its letters \<^verbatim>\<open>a\<close> to \<^verbatim>\<open>z\<close> replaced by
  \<^verbatim>\<open>A\<close> to \<^verbatim>\<open>Z\<close> and nothing else changed.
\<close>

definition ascii_upper_char :: "char \<Rightarrow> char" where
  "ascii_upper_char c =
     (case map_of (zip ''abcdefghijklmnopqrstuvwxyz'' ''ABCDEFGHIJKLMNOPQRSTUVWXYZ'') c of
        Some u \<Rightarrow> u
      | None \<Rightarrow> c)"

definition ascii_upper :: "string \<Rightarrow> string" where
  "ascii_upper s = map ascii_upper_char s"

definition is_ascii :: "char \<Rightarrow> bool" where
  "is_ascii c = (\<not> digit7 c)"

definition upper_case_mapping :: "(string \<Rightarrow> string) \<Rightarrow> bool" where
  "upper_case_mapping toUpperCase =
     ((\<forall>s. (toUpperCase s = []) = (s = []))
      \<and> (\<forall>s. list_all is_ascii s \<longrightarrow> toUpperCase s = ascii_upper s))"

text \<open>
  Two mappings of this kind, for the examples: one that changes the ASCII letters only,
  and one that also sends the byte \<open>0xDF\<close> to \<^verbatim>\<open>SS\<close>, as the table does with the
  code unit of that number.
\<close>

definition sharp_s_upper :: "string \<Rightarrow> string" where
  "sharp_s_upper s =
     concat (map (\<lambda>c. if c = CHR 0xDF then ''SS'' else [ascii_upper_char c]) s)"

text \<open>
  \<^verbatim>\<open>frappe.utils.escape_html\<close> is a helper of the host framework, not defined in this
  repository. It is modelled after the framework's client library:
  \<^verbatim>\<open>
  escape_html: function (txt) {
    if (!txt) return "";
    let escape_html_mapping = {
      "&": "&amp;", "<": "&lt;", ">": "&gt;", '"': "&quot;",
      "'": "&#39;", "`": "&#x60;", "=": "&#x3D;" };
    return String(txt).replace(/[&<>"'`=]/g, (char) => escape_html_mapping[char] || char);
  }
  \<close>
  The double quote is \<open>CHR 0x22\<close>, the single quote \<open>CHR 0x27\<close> and the backtick
  \<open>CHR 0x60\<close>.
\<close>

definition escape_char :: "char \<Rightarrow> string" where
  "escape_char c =
     (if c = CHR ''&'' then ''&amp;''
      else if c = CHR ''<'' then ''&lt;''
      else if c = CHR ''>'' then ''&gt;''
      else if c = CHR 0x22 then ''&quot;''
      else if c = CHR 0x27 then ''&#39;''
      else if c = CHR 0x60 then ''&#x60;''
      else if c = CHR ''='' then ''&#x3D;''
      else [c])"

definition escape_html :: "string \<Rightarrow> string" where
  "escape_html txt = (if txt = [] then [] else concat (map escape_char txt))"

text \<open>
  What it means for a text to be escaped, from the reader's side: the text that an HTML
  reader takes from a piece of character data. A character reference stands for its
  character, any other character for itself. The reading is strict: there is none
  (\<open>None\<close>) when the data holds a \<^verbatim>\<open><\<close>, \<^verbatim>\<open>>\<close>, quote, backtick or \<^verbatim>\<open>=\<close>, or a
  \<^verbatim>\<open>&\<close> that does not start one of the seven references.
\<close>

fun unescape_html :: "string \<Rightarrow> string option" where
  "unescape_html [] = Some []"
| "unescape_html (c # cs) =
     (if c = CHR ''&'' then
        (if take 4 cs = ''amp;'' then map_option ((#) (CHR ''&'')) (unescape_html (drop 4 cs))
         else if take 3 cs = ''lt;'' then map_option ((#) (CHR ''<'')) (unescape_html (drop 3 cs))
         else if take 3 cs = ''gt;'' then map_option ((#) (CHR ''>'')) (unescape_html (drop 3 cs))
         else if take 5 cs = ''quot;''
           then map_option ((#) (CHR 0x22)) (unescape_html (drop 5 cs))
         else if take 4 cs = ''#39;''
           then map_option ((#) (CHR 0x27)) (unescape_html (drop 4 cs))
         else if take 5 cs = ''#x60;''
           then map_option ((#) (CHR 0x60)) (unescape_html (drop 5 cs))
         else if take 5 cs = ''#x3D;''
           then map_option ((#) (CHR ''='')) (unescape_html (drop 5 cs))
         else None)
      else if c \<in> set [CHR ''<'', CHR ''>'', CHR 0x22, CHR 0x27, CHR 0x60, CHR ''=''] then None
      else map_option ((#) c) (unescape_html cs))"

declare unescape_html.simps(2) [simp del]

text \<open>
  What the user sees: the transient alerts shown so far, each a message with its
  indicator, and the form's intro banner, an HTML text with its color.
\<close>

record ui =
  alerts :: "(string \<times> string) list"
  intro :: "(string \<times> string) option"

definition show_alert :: "string \<Rightarrow> string \<Rightarrow> ui \<Rightarrow> ui" where
  "show_alert message indicator u = u\<lparr>alerts := alerts u @ [(message, indicator)]\<rparr>"

definition set_intro :: "string \<Rightarrow> string \<Rightarrow> ui \<Rightarrow> ui" where
  "set_intro html color u = u\<lparr>intro := Some (html, color)\<rparr>"

text \<open>
  \<^verbatim>\<open>render_test_status\<close> of the main controller. \<^verbatim>\<open>frappe.show_alert\<close> adds an
  alert, \<^verbatim>\<open>frm.set_intro\<close> replaces the banner. The double quotes of the two labels
  are written \<open>CHR 0x22\<close>.
\<close>

definition render_test_status :: "(string \<Rightarrow> string) \<Rightarrow> doc \<Rightarrow> ui \<Rightarrow> ui" where
  "render_test_status toUpperCase d u =
     (let s = toUpperCase (str_or (last_test_status d) []);
          msg = str_or (last_test_message d) [];
          on = str_or (last_test_on d) []
      in if s = [] then u
         else
           let u1 = (if s = ''SUCCESS'' then show_alert ''BK Connection: SUCCESS'' ''green'' u
                     else if s = ''FAILED'' then show_alert ''BK Connection: FAILED'' ''red'' u
                     else u);
               label =
                 (if s = ''SUCCESS''
                  then ''<span style='' @ [CHR 0x22] @ ''color:#178a2f;font-weight:600;''
                         @ [CHR 0x22] @ ''>SUCCESS</span>''
                  else ''<span style='' @ [CHR 0x22] @ ''color:#c0392b;font-weight:600;''
                         @ [CHR 0x22] @ ''>FAILED</span>'')
           in set_intro
                (''<div>BK Connection Test: '' @ label @ ''<br>'' @ escape_html msg
                   @ ''<br><small>Last tested: '' @ escape_html on @ ''</small></div>'')
                (if s = ''SUCCESS'' then ''green'' else ''red'') u1)"

subsection \<open>Well-typed flags and sample data\<close>

text \<open>
  The check field is well typed when it holds a boolean or one of the numbers 0 and 1.
\<close>

fun well_typed_flag :: "jsval \<Rightarrow> bool" where
  "well_typed_flag (JBool b) = True"
| "well_typed_flag (JNum n) = (n = 0 \<or> n = 1)"
| "well_typed_flag v = False"

text \<open>A freshly loaded document with nothing derived yet, and an empty form.\<close>

definition sample_doc :: doc where
  "sample_doc =
     \<lparr>enable_integration = JNum 1, erp_base_url = Some ''https://x.com'',
      auth_url = None, validation_url = None, payment_notification_url = None,
      payment_callback_url = None, payment_reversal_url = None,
      last_test_status = Some ''ERROR'', last_test_message = Some ''<script>x</script>'',
      last_test_on = Some ''2024-05-01 10:00:00''\<rparr>"

definition sample_ui :: ui where
  "sample_ui = \<lparr>alerts = [], intro = Some (''old banner'', ''blue'')\<rparr>"

section \<open>Verification\<close>

subsection \<open>Trailing slashes\<close>

text \<open>
  The search for the first match of the pattern computes what the specification calls
  stripping the trailing slashes.
\<close>

lemma strip_Cons:
  "stripTrailingSlashes (c # cs) =
     (if c = CHR ''/'' \<and> list_all (\<lambda>x. x = CHR ''/'') cs then []
      else c # stripTrailingSlashes cs)"
  by (auto simp: stripTrailingSlashes_def dropWhile_append list_all_iff)

lemma replace_eq_strip: "replace_trailing_slashes s = stripTrailingSlashes s"
proof (induction s)
  case Nil
  show ?case by (simp add: stripTrailingSlashes_def)
next
  case (Cons c cs)
  then show ?case by (simp add: strip_Cons)
qed

lemma strip_append_slashes:
  "stripTrailingSlashes (s @ replicate n (CHR ''/'')) = stripTrailingSlashes s"
  by (simp add: stripTrailingSlashes_def dropWhile_append)

text \<open>
  The stripped string is what is left of the input before its final run of slashes, and
  it does not end with a slash.
\<close>

lemma strip_decomp: "\<exists>n. s = stripTrailingSlashes s @ replicate n (CHR ''/'')"
proof (induction s rule: rev_induct)
  case Nil
  show ?case by (simp add: stripTrailingSlashes_def)
next
  case (snoc x xs)
  show ?case
  proof (cases "x = CHR ''/''")
    case True
    from snoc obtain n where n: "xs = stripTrailingSlashes xs @ replicate n (CHR ''/'')"
      by blast
    have "stripTrailingSlashes (xs @ [x]) = stripTrailingSlashes xs"
      using True strip_append_slashes [of xs 1] by simp
    moreover have "xs @ [x] = stripTrailingSlashes xs @ replicate (Suc n) (CHR ''/'')"
      using n True by (metis append.assoc replicate_Suc replicate_append_same)
    ultimately show ?thesis by metis
  next
    case False
    then have "stripTrailingSlashes (xs @ [x]) = xs @ [x]"
      by (simp add: stripTrailingSlashes_def)
    then show ?thesis by (metis append_Nil2 replicate_0)
  qed
qed

lemma strip_no_trailing_slash:
  "stripTrailingSlashes s \<noteq> [] \<Longrightarrow> last (stripTrailingSlashes s) \<noteq> CHR ''/''"
  unfolding stripTrailingSlashes_def
  by (metis (mono_tags, lifting) hd_dropWhile last_rev rev_is_Nil_conv)

subsection \<open>URL derivation\<close>

text \<open>
  C1. When \<^verbatim>\<open>enable_integration\<close> is true and \<^verbatim>\<open>erp_base_url\<close> is a non-empty
  string, \<^verbatim>\<open>generate_urls\<close> leaves in each of the five derived fields the base with its
  trailing slashes stripped, followed by \<^verbatim>\<open>/api/method/bk_integration.api.\<close> and the
  field's suffix: \<^verbatim>\<open>authenticate\<close>, \<^verbatim>\<open>validate_customer\<close>,
  \<^verbatim>\<open>payment_notification\<close>, \<^verbatim>\<open>payment_callback\<close>, \<^verbatim>\<open>payment_reversal\<close>.
\<close>

theorem generate_urls_derived:
  assumes "truthy (enable_integration d)" and "erp_base_url d = Some b" and "b \<noteq> []"
  shows "auth_url (generate_urls origin d) =
           Some (stripTrailingSlashes b @ ''/api/method/bk_integration.api.'' @ ''authenticate'')
       \<and> validation_url (generate_urls origin d) =
           Some (stripTrailingSlashes b @ ''/api/method/bk_integration.api.''
                   @ ''validate_customer'')
       \<and> payment_notification_url (generate_urls origin d) =
           Some (stripTrailingSlashes b @ ''/api/method/bk_integration.api.''
                   @ ''payment_notification'')
       \<and> payment_callback_url (generate_urls origin d) =
           Some (stripTrailingSlashes b @ ''/api/method/bk_integration.api.''
                   @ ''payment_callback'')
       \<and> payment_reversal_url (generate_urls origin d) =
           Some (stripTrailingSlashes b @ ''/api/method/bk_integration.api.''
                   @ ''payment_reversal'')"
  using assms by (simp add: generate_urls_def replace_eq_strip Let_def)

theorem generate_urls_derived_witness:
  "derived_urls (generate_urls ''https://app.local''
       (sample_doc\<lparr>erp_base_url := Some ''https://erp.example.com/''\<rparr>)) =
     [Some ''https://erp.example.com/api/method/bk_integration.api.authenticate'',
      Some ''https://erp.example.com/api/method/bk_integration.api.validate_customer'',
      Some ''https://erp.example.com/api/method/bk_integration.api.payment_notification'',
      Some ''https://erp.example.com/api/method/bk_integration.api.payment_callback'',
      Some ''https://erp.example.com/api/method/bk_integration.api.payment_reversal'']"
  using generate_urls_derived
    [of "sample_doc\<lparr>erp_base_url := Some ''https://erp.example.com/''\<rparr>"
      "''https://erp.example.com/''" "''https://app.local''"]
  by (simp add: sample_doc_def derived_urls_def stripTrailingSlashes_def)

text \<open>
  C2. When \<^verbatim>\<open>enable_integration\<close> is false (or any other falsy value),
  \<^verbatim>\<open>generate_urls\<close> returns the document as it was, with every field, the five derived
  ones included, unchanged. This holds for the main controller and for the variant.
\<close>

theorem generate_urls_disabled_noop:
  assumes "\<not> truthy (enable_integration d)"
  shows "generate_urls origin d = d \<and> generate_urls_variant origin d = d"
  using assms by (simp add: generate_urls_def generate_urls_variant_def js_or_def)

theorem generate_urls_disabled_noop_witness:
  "generate_urls ''https://app.local''
       (sample_doc\<lparr>enable_integration := JBool False, auth_url := Some ''stale''\<rparr>)
     = sample_doc\<lparr>enable_integration := JBool False, auth_url := Some ''stale''\<rparr>
   \<and> generate_urls_variant ''https://app.local''
       (sample_doc\<lparr>enable_integration := JBool False, auth_url := Some ''stale''\<rparr>)
     = sample_doc\<lparr>enable_integration := JBool False, auth_url := Some ''stale''\<rparr>"
  using generate_urls_disabled_noop
    [of "sample_doc\<lparr>enable_integration := JBool False, auth_url := Some ''stale''\<rparr>"
      "''https://app.local''"]
  by simp

text \<open>
  With the integration enabled, all five fields are built from the one base: the
  document's \<^verbatim>\<open>erp_base_url\<close> if it is a non-empty string, the origin otherwise.
\<close>

lemma generate_urls_enabled:
  "truthy (enable_integration d) \<Longrightarrow>
   derived_urls (generate_urls origin d) =
     map (\<lambda>suffix. Some (stripTrailingSlashes (str_or (erp_base_url d) origin)
                            @ ''/api/method/bk_integration.api.'' @ suffix))
       [''authenticate'', ''validate_customer'', ''payment_notification'',
        ''payment_callback'', ''payment_reversal'']"
  by (simp add: generate_urls_def derived_urls_def replace_eq_strip Let_def)

text \<open>
  C3, as stated: for every base string, \<^verbatim>\<open>generate_urls\<close> on the base and on the base
  followed by one or more slashes gives the same five derived fields. This fails for the
  empty base: an empty \<^verbatim>\<open>erp_base_url\<close> is falsy, so the origin is used, while
  \<^verbatim>\<open>/\<close> is a non-empty string that is stripped to the empty base.
\<close>

theorem generate_urls_trailing_slashes_counterexample:
  "derived_urls (generate_urls ''https://app.local''
       (sample_doc\<lparr>enable_integration := JBool True, erp_base_url := Some []\<rparr>))
   \<noteq> derived_urls (generate_urls ''https://app.local''
       (sample_doc\<lparr>enable_integration := JBool True,
          erp_base_url := Some ([] @ replicate 1 (CHR ''/''))\<rparr>))"
  by (simp add: generate_urls_def derived_urls_def sample_doc_def)

text \<open>
  C3, amended: for every non-empty base string and an enabled integration,
  \<^verbatim>\<open>generate_urls\<close> on the base and on the base followed by any number of slashes
  gives the same five derived fields; so \<^verbatim>\<open>https://x.com///\<close> and
  \<^verbatim>\<open>https://x.com\<close> give the same URLs.
\<close>

theorem generate_urls_trailing_slashes:
  assumes "truthy (enable_integration d)" and "b \<noteq> []"
  shows "derived_urls
           (generate_urls origin (d\<lparr>erp_base_url := Some (b @ replicate n (CHR ''/''))\<rparr>))
       = derived_urls (generate_urls origin (d\<lparr>erp_base_url := Some b\<rparr>))"
  using assms by (simp add: generate_urls_enabled strip_append_slashes)

theorem generate_urls_trailing_slashes_witness:
  "derived_urls (generate_urls ''https://app.local''
       (sample_doc\<lparr>erp_base_url := Some ''https://x.com///''\<rparr>))
   = derived_urls (generate_urls ''https://app.local''
       (sample_doc\<lparr>erp_base_url := Some ''https://x.com''\<rparr>))"
  using generate_urls_trailing_slashes
    [of sample_doc "''https://x.com''" "''https://app.local''" 3]
  by (simp add: sample_doc_def numeral_3_eq_3)




text \<open>
  C5. When the integration is enabled and \<^verbatim>\<open>erp_base_url\<close> is empty or unset,
  \<^verbatim>\<open>generate_urls\<close> takes the origin as the base (its trailing slashes stripped, like
  any base). With the origin \<^verbatim>\<open>https://app.local\<close> the field \<^verbatim>\<open>auth_url\<close>
  becomes \<^verbatim>\<open>https://app.local/api/method/bk_integration.api.authenticate\<close>, and the
  other four fields follow with their suffixes.
\<close>

theorem generate_urls_origin_fallback:
  assumes "truthy (enable_integration d)"
    and "erp_base_url d = None \<or> erp_base_url d = Some []"
  shows "derived_urls (generate_urls origin d) =
     [Some (stripTrailingSlashes origin @ ''/api/method/bk_integration.api.''
              @ ''authenticate''),
      Some (stripTrailingSlashes origin @ ''/api/method/bk_integration.api.''
              @ ''validate_customer''),
      Some (stripTrailingSlashes origin @ ''/api/method/bk_integration.api.''
              @ ''payment_notification''),
      Some (stripTrailingSlashes origin @ ''/api/method/bk_integration.api.''
              @ ''payment_callback''),
      Some (stripTrailingSlashes origin @ ''/api/method/bk_integration.api.''
              @ ''payment_reversal'')]"
  using assms by (auto simp: generate_urls_def derived_urls_def replace_eq_strip Let_def)

theorem generate_urls_origin_fallback_witness:
  "derived_urls (generate_urls ''https://app.local'' (sample_doc\<lparr>erp_base_url := Some []\<rparr>)) =
     [Some ''https://app.local/api/method/bk_integration.api.authenticate'',
      Some ''https://app.local/api/method/bk_integration.api.validate_customer'',
      Some ''https://app.local/api/method/bk_integration.api.payment_notification'',
      Some ''https://app.local/api/method/bk_integration.api.payment_callback'',
      Some ''https://app.local/api/method/bk_integration.api.payment_reversal'']"
  using generate_urls_origin_fallback
    [of "sample_doc\<lparr>erp_base_url := Some []\<rparr>" "''https://app.local''"]
  by (simp add: sample_doc_def stripTrailingSlashes_def)

subsection \<open>The two variants\<close>

lemma well_typed_flag_guard:
  "well_typed_flag e \<Longrightarrow> (cint (js_or e (JNum 0)) = 0) = (\<not> truthy e)"
  by (cases e) (auto simp: js_or_def)

text \<open>
  C10. On a well-typed flag (a boolean, or the number 0 or 1) the variant's
  \<^verbatim>\<open>generate_urls\<close> and the main controller's return the same document, for every
  \<^verbatim>\<open>erp_base_url\<close> and origin; the two guards agree, so one returns early exactly
  when the other does.
\<close>

theorem generate_urls_variants_agree:
  assumes "well_typed_flag (enable_integration d)"
  shows "generate_urls_variant origin d = generate_urls origin d
       \<and> (cint (js_or (enable_integration d) (JNum 0)) = 0) = (\<not> truthy (enable_integration d))
       \<and> (generate_urls_variant origin d = d) = (generate_urls origin d = d)"
  using well_typed_flag_guard [OF assms]
  by (simp add: generate_urls_def generate_urls_variant_def)

theorem generate_urls_variants_agree_witness:
  "generate_urls_variant ''https://app.local'' sample_doc
     = generate_urls ''https://app.local'' sample_doc
   \<and> cint (js_or (enable_integration sample_doc) (JNum 0)) \<noteq> 0
   \<and> truthy (enable_integration sample_doc)"
  using generate_urls_variants_agree [of sample_doc "''https://app.local''"]
  by (simp add: sample_doc_def)

subsection \<open>Upper-case mappings\<close>

text \<open>Both sample mappings are upper-case mappings in the sense assumed.\<close>

lemma ascii_upper_empty: "(ascii_upper s = []) = (s = [])"
  by (simp add: ascii_upper_def)

lemma upper_case_mapping_ascii_upper: "upper_case_mapping ascii_upper"
  by (simp add: upper_case_mapping_def ascii_upper_empty)

lemma sharp_s_upper_ascii: "list_all is_ascii s \<Longrightarrow> sharp_s_upper s = ascii_upper s"
  by (induction s) (auto simp: sharp_s_upper_def ascii_upper_def is_ascii_def)

lemma sharp_s_upper_empty: "(sharp_s_upper s = []) = (s = [])"
  by (cases s) (auto simp: sharp_s_upper_def)

lemma upper_case_mapping_sharp_s_upper: "upper_case_mapping sharp_s_upper"
  by (simp add: upper_case_mapping_def sharp_s_upper_empty sharp_s_upper_ascii)

lemma upper_case_mapping_empty:
  "upper_case_mapping toUpperCase \<Longrightarrow> (toUpperCase s = []) = (s = [])"
  by (simp add: upper_case_mapping_def)

lemma upper_case_mapping_success:
  assumes "upper_case_mapping toUpperCase"
  shows "toUpperCase ''success'' = ''SUCCESS''" and "toUpperCase ''SUCCESS'' = ''SUCCESS''"
proof -
  have a: "list_all is_ascii ''success''" and b: "list_all is_ascii ''SUCCESS''"
    by (simp_all add: is_ascii_def)
  have "ascii_upper ''success'' = ''SUCCESS''" "ascii_upper ''SUCCESS'' = ''SUCCESS''"
    by (simp_all add: ascii_upper_def ascii_upper_char_def)
  with assms a b show "toUpperCase ''success'' = ''SUCCESS''"
    and "toUpperCase ''SUCCESS'' = ''SUCCESS''"
    unfolding upper_case_mapping_def by metis+
qed

subsection \<open>Escaping\<close>

text \<open>
  The host's escaping read back gives the text it was given, and leaves none of the
  characters that open or close markup or an attribute.
\<close>

lemma escape_html_Cons: "escape_html (c # cs) = escape_char c @ escape_html cs"
  by (simp add: escape_html_def)

lemma unescape_escape_char:
  "unescape_html (escape_char c @ rest) = map_option ((#) c) (unescape_html rest)"
  by (simp add: escape_char_def unescape_html.simps(2))

lemma unescape_escape_html: "unescape_html (escape_html x) = Some x"
proof (induction x)
  case Nil
  show ?case by (simp add: escape_html_def)
next
  case (Cons c cs)
  then show ?case by (simp add: escape_html_Cons unescape_escape_char)
qed

lemma escape_char_no_markup:
  "set (escape_char c) \<inter> {CHR ''<'', CHR ''>'', CHR 0x22, CHR 0x27, CHR 0x60, CHR ''=''} = {}"
  by (simp add: escape_char_def)

lemma escape_html_no_markup:
  "set (escape_html x) \<inter> {CHR ''<'', CHR ''>'', CHR 0x22, CHR 0x27, CHR 0x60, CHR ''=''} = {}"
proof (induction x)
  case Nil
  show ?case by (simp add: escape_html_def)
next
  case (Cons c cs)
  have "set (escape_html (c # cs)) = set (escape_char c) \<union> set (escape_html cs)"
    by (simp add: escape_html_def)
  with Cons escape_char_no_markup [of c] show ?case by (simp add: Int_Un_distrib2)
qed

lemma take_eq_split: "take n cs = p \<Longrightarrow> cs = p @ drop n cs"
  by (metis append_take_drop_id)

text \<open>
  The escaped text is the only character data that reads back as the given text.
\<close>

lemma unescape_unique: "unescape_html y = Some x \<Longrightarrow> y = escape_html x"
proof (induction y arbitrary: x rule: unescape_html.induct)
  case 1
  then show ?case by (simp add: escape_html_def)
next
  case (2 c cs)
  note prem = "2.prems" [unfolded unescape_html.simps(2)]
  show ?case
  proof (cases "c = CHR ''&''")
    case False
    with prem obtain x' where x: "x = c # x'" and u: "unescape_html cs = Some x'"
      and nm: "c \<notin> set [CHR ''<'', CHR ''>'', CHR 0x22, CHR 0x27, CHR 0x60, CHR ''='']"
      by (auto split: if_splits)
    from "2.IH"(8) [OF False nm u] have "cs = escape_html x'" .
    moreover have "escape_char c = [c]" using False nm by (simp add: escape_char_def)
    ultimately show ?thesis using x by (simp add: escape_html_Cons)
  next
    case True
    consider
      (e1) x' where
        "take 4 cs = ''amp;''"
        "unescape_html (drop 4 cs) = Some x'" "x = CHR ''&'' # x'"
    | (e2) x' where
        "take 4 cs \<noteq> ''amp;''"
        "take 3 cs = ''lt;''"
        "unescape_html (drop 3 cs) = Some x'" "x = CHR ''<'' # x'"
    | (e3) x' where
        "take 4 cs \<noteq> ''amp;''"
        "take 3 cs \<noteq> ''lt;''"
        "take 3 cs = ''gt;''"
        "unescape_html (drop 3 cs) = Some x'" "x = CHR ''>'' # x'"
    | (e4) x' where
        "take 4 cs \<noteq> ''amp;''"
        "take 3 cs \<noteq> ''lt;''"
        "take 3 cs \<noteq> ''gt;''"
        "take 5 cs = ''quot;''"
        "unescape_html (drop 5 cs) = Some x'" "x = CHR 0x22 # x'"
    | (e5) x' where
        "take 4 cs \<noteq> ''amp;''"
        "take 3 cs \<noteq> ''lt;''"
        "take 3 cs \<noteq> ''gt;''"
        "take 5 cs \<noteq> ''quot;''"
        "take 4 cs = ''#39;''"
        "unescape_html (drop 4 cs) = Some x'" "x = CHR 0x27 # x'"
    | (e6) x' where
        "take 4 cs \<noteq> ''amp;''"
        "take 3 cs \<noteq> ''lt;''"
        "take 3 cs \<noteq> ''gt;''"
        "take 5 cs \<noteq> ''quot;''"
        "take 4 cs \<noteq> ''#39;''"
        "take 5 cs = ''#x60;''"
        "unescape_html (drop 5 cs) = Some x'" "x = CHR 0x60 # x'"
    | (e7) x' where
        "take 4 cs \<noteq> ''amp;''"
        "take 3 cs \<noteq> ''lt;''"
        "take 3 cs \<noteq> ''gt;''"
        "take 5 cs \<noteq> ''quot;''"
        "take 4 cs \<noteq> ''#39;''"
        "take 5 cs \<noteq> ''#x60;''"
        "take 5 cs = ''#x3D;''"
        "unescape_html (drop 5 cs) = Some x'" "x = CHR ''='' # x'"
      using prem True by (auto split: if_splits)
    then show ?thesis
    proof cases
      case e1
      from "2.IH"(1) [OF True e1(1) e1(2)]
      have "drop 4 cs = escape_html x'" .
      with take_eq_split [OF e1(1)] have "cs = ''amp;'' @ escape_html x'" by simp
      then show ?thesis using True e1(3) by (simp add: escape_html_Cons escape_char_def)
    next
      case e2
      from "2.IH"(2) [OF True e2(1) e2(2) e2(3)]
      have "drop 3 cs = escape_html x'" .
      with take_eq_split [OF e2(2)] have "cs = ''lt;'' @ escape_html x'" by simp
      then show ?thesis using True e2(4) by (simp add: escape_html_Cons escape_char_def)
    next
      case e3
      from "2.IH"(3) [OF True e3(1) e3(2) e3(3) e3(4)]
      have "drop 3 cs = escape_html x'" .
      with take_eq_split [OF e3(3)] have "cs = ''gt;'' @ escape_html x'" by simp
      then show ?thesis using True e3(5) by (simp add: escape_html_Cons escape_char_def)
    next
      case e4
      from "2.IH"(4) [OF True e4(1) e4(2) e4(3) e4(4) e4(5)]
      have "drop 5 cs = escape_html x'" .
      with take_eq_split [OF e4(4)] have "cs = ''quot;'' @ escape_html x'" by simp
      then show ?thesis using True e4(6) by (simp add: escape_html_Cons escape_char_def)
    next
      case e5
      from "2.IH"(5) [OF True e5(1) e5(2) e5(3) e5(4) e5(5) e5(6)]
      have "drop 4 cs = escape_html x'" .
      with take_eq_split [OF e5(5)] have "cs = ''#39;'' @ escape_html x'" by simp
      then show ?thesis using True e5(7) by (simp add: escape_html_Cons escape_char_def)
    next
      case e6
      from "2.IH"(6) [OF True e6(1) e6(2) e6(3) e6(4) e6(5) e6(6) e6(7)]
      have "drop 5 cs = escape_html x'" .
      with take_eq_split [OF e6(6)] have "cs = ''#x60;'' @ escape_html x'" by simp
      then show ?thesis using True e6(8) by (simp add: escape_html_Cons escape_char_def)
    next
      case e7
      from "2.IH"(7) [OF True e7(1) e7(2) e7(3) e7(4) e7(5) e7(6) e7(7) e7(8)]
      have "drop 5 cs = escape_html x'" .
      with take_eq_split [OF e7(7)] have "cs = ''#x3D;'' @ escape_html x'" by simp
      then show ?thesis using True e7(9) by (simp add: escape_html_Cons escape_char_def)
    qed
  qed
qed

subsection \<open>Status rendering\<close>

text \<open>The banner and the alerts after \<^verbatim>\<open>render_test_status\<close>, by the upper-cased status.\<close>

lemma render_test_status_intro:
  "intro (render_test_status toUpperCase d u) =
     (if toUpperCase (str_or (last_test_status d) []) = [] then intro u
      else Some (''<div>BK Connection Test: ''
                   @ (if toUpperCase (str_or (last_test_status d) []) = ''SUCCESS''
                      then ''<span style='' @ [CHR 0x22] @ ''color:#178a2f;font-weight:600;''
               @ [CHR 0x22] @ ''>SUCCESS</span>''
                      else ''<span style='' @ [CHR 0x22] @ ''color:#c0392b;font-weight:600;''
               @ [CHR 0x22] @ ''>FAILED</span>'')
                   @ ''<br>'' @ escape_html (str_or (last_test_message d) [])
                   @ ''<br><small>Last tested: '' @ escape_html (str_or (last_test_on d) [])
                   @ ''</small></div>'',
                 if toUpperCase (str_or (last_test_status d) []) = ''SUCCESS''
                 then ''green'' else ''red''))"
  by (simp add: render_test_status_def Let_def set_intro_def show_alert_def)

lemma render_test_status_alerts:
  "alerts (render_test_status toUpperCase d u) =
     (if toUpperCase (str_or (last_test_status d) []) = ''SUCCESS''
      then alerts u @ [(''BK Connection: SUCCESS'', ''green'')]
      else if toUpperCase (str_or (last_test_status d) []) = ''FAILED''
      then alerts u @ [(''BK Connection: FAILED'', ''red'')]
      else alerts u)"
  by (simp add: render_test_status_def Let_def set_intro_def show_alert_def)

text \<open>
  C6. Whenever \<^verbatim>\<open>render_test_status\<close> writes the intro banner, the banner is the fixed
  template around the label, the escaped \<^verbatim>\<open>last_test_message\<close> and the escaped
  \<^verbatim>\<open>last_test_on\<close>; with an empty upper-cased status the banner is not written at
  all. This holds whatever \<^verbatim>\<open>toUpperCase\<close> does. The escaped form of a text is the one
  character data that reads back as that text, and it holds no \<^verbatim>\<open><\<close>, \<^verbatim>\<open>>\<close>, quote,
  backtick or \<^verbatim>\<open>=\<close>; the message \<^verbatim>\<open><script>x</script>\<close> is inserted as
  \<^verbatim>\<open>&lt;script&gt;x&lt;/script&gt;\<close>.
\<close>

theorem render_test_status_escapes:
  "intro (render_test_status toUpperCase d u) =
     (if toUpperCase (str_or (last_test_status d) []) = [] then intro u
      else Some (''<div>BK Connection Test: ''
                   @ (if toUpperCase (str_or (last_test_status d) []) = ''SUCCESS''
                      then ''<span style='' @ [CHR 0x22] @ ''color:#178a2f;font-weight:600;''
               @ [CHR 0x22] @ ''>SUCCESS</span>''
                      else ''<span style='' @ [CHR 0x22] @ ''color:#c0392b;font-weight:600;''
               @ [CHR 0x22] @ ''>FAILED</span>'')
                   @ ''<br>'' @ escape_html (str_or (last_test_message d) [])
                   @ ''<br><small>Last tested: '' @ escape_html (str_or (last_test_on d) [])
                   @ ''</small></div>'',
                 if toUpperCase (str_or (last_test_status d) []) = ''SUCCESS''
                 then ''green'' else ''red''))
   \<and> unescape_html (escape_html x) = Some x
   \<and> (\<forall>y. unescape_html y = Some x \<longrightarrow> y = escape_html x)
   \<and> set (escape_html x) \<inter> {CHR ''<'', CHR ''>'', CHR 0x22, CHR 0x27, CHR 0x60, CHR ''=''} = {}
   \<and> escape_html ''<script>x</script>'' = ''&lt;script&gt;x&lt;/script&gt;''"
proof -
  have "escape_html ''<script>x</script>'' = ''&lt;script&gt;x&lt;/script&gt;''"
    by (simp add: escape_html_def escape_char_def)
  moreover have "\<forall>y. unescape_html y = Some x \<longrightarrow> y = escape_html x"
    using unescape_unique by blast
  ultimately show ?thesis
    using render_test_status_intro [of toUpperCase d u] unescape_escape_html [of x]
      escape_html_no_markup [of x]
    by (intro conjI)
qed

theorem render_test_status_escapes_witness:
  "intro (render_test_status ascii_upper (sample_doc\<lparr>last_test_status := Some ''FAILED''\<rparr>)
       sample_ui) =
     Some (''<div>BK Connection Test: <span style='' @ [CHR 0x22]
             @ ''color:#c0392b;font-weight:600;'' @ [CHR 0x22] @ ''>FAILED</span>''
             @ ''<br>&lt;script&gt;x&lt;/script&gt;''
             @ ''<br><small>Last tested: 2024-05-01 10:00:00</small></div>'',
           ''red'')
   \<and> unescape_html ''&lt;script&gt;x&lt;/script&gt;'' = Some ''<script>x</script>''"
  using render_test_status_escapes
    [of ascii_upper "sample_doc\<lparr>last_test_status := Some ''FAILED''\<rparr>" sample_ui
      "''<script>x</script>''"]
  by (simp add: sample_doc_def ascii_upper_def ascii_upper_char_def escape_html_def
      escape_char_def)

text \<open>
  C7. For a non-empty \<^verbatim>\<open>last_test_status\<close> whose upper-case form is neither
  \<^verbatim>\<open>SUCCESS\<close> nor \<^verbatim>\<open>FAILED\<close> (such as \<^verbatim>\<open>ERROR\<close>), \<^verbatim>\<open>render_test_status\<close>
  shows no alert and still sets the intro banner, with the red \<^verbatim>\<open>FAILED\<close> label and
  the color red. The upper-case form is the one \<^verbatim>\<open>toUpperCase\<close> gives, for any
  upper-case mapping.
\<close>

theorem render_test_status_other_status:
  assumes "upper_case_mapping toUpperCase"
    and "last_test_status d = Some st" and "st \<noteq> []"
    and "toUpperCase st \<noteq> ''SUCCESS''" and "toUpperCase st \<noteq> ''FAILED''"
  shows "alerts (render_test_status toUpperCase d u) = alerts u
       \<and> intro (render_test_status toUpperCase d u) =
           Some (''<div>BK Connection Test: ''
                   @ ''<span style='' @ [CHR 0x22] @ ''color:#c0392b;font-weight:600;''
               @ [CHR 0x22] @ ''>FAILED</span>''
                   @ ''<br>'' @ escape_html (str_or (last_test_message d) [])
                   @ ''<br><small>Last tested: '' @ escape_html (str_or (last_test_on d) [])
                   @ ''</small></div>'',
                 ''red'')"
proof -
  have "str_or (last_test_status d) [] = st" using assms(2,3) by simp
  moreover have "toUpperCase st \<noteq> []" using assms(1,3) by (simp add: upper_case_mapping_empty)
  ultimately show ?thesis
    using assms(4,5) by (simp add: render_test_status_intro render_test_status_alerts)
qed

theorem render_test_status_other_status_witness:
  "alerts (render_test_status ascii_upper sample_doc sample_ui) = []
   \<and> intro (render_test_status ascii_upper sample_doc sample_ui) =
       Some (''<div>BK Connection Test: <span style='' @ [CHR 0x22]
               @ ''color:#c0392b;font-weight:600;'' @ [CHR 0x22] @ ''>FAILED</span>''
               @ ''<br>&lt;script&gt;x&lt;/script&gt;''
               @ ''<br><small>Last tested: 2024-05-01 10:00:00</small></div>'',
             ''red'')"
  using render_test_status_other_status
    [OF upper_case_mapping_ascii_upper, of sample_doc "''ERROR''" sample_ui]
  by (simp add: sample_doc_def sample_ui_def ascii_upper_def ascii_upper_char_def
      escape_html_def escape_char_def)

text \<open>
  C8. \<^verbatim>\<open>render_test_status\<close> compares the status without regard to case: for every
  document, the status \<^verbatim>\<open>success\<close> has the same effects as \<^verbatim>\<open>SUCCESS\<close>, namely the
  green success alert and the banner with the green \<^verbatim>\<open>SUCCESS\<close> label and the color
  green; and any two statuses with the same upper-case form have the same effects.
\<close>

theorem render_test_status_case_insensitive:
  assumes "upper_case_mapping toUpperCase"
  shows "render_test_status toUpperCase (d\<lparr>last_test_status := Some ''success''\<rparr>) u
     = render_test_status toUpperCase (d\<lparr>last_test_status := Some ''SUCCESS''\<rparr>) u
   \<and> alerts (render_test_status toUpperCase (d\<lparr>last_test_status := Some ''success''\<rparr>) u)
     = alerts u @ [(''BK Connection: SUCCESS'', ''green'')]
   \<and> intro (render_test_status toUpperCase (d\<lparr>last_test_status := Some ''success''\<rparr>) u)
     = Some (''<div>BK Connection Test: ''
               @ ''<span style='' @ [CHR 0x22] @ ''color:#178a2f;font-weight:600;''
               @ [CHR 0x22] @ ''>SUCCESS</span>''
               @ ''<br>'' @ escape_html (str_or (last_test_message d) [])
               @ ''<br><small>Last tested: '' @ escape_html (str_or (last_test_on d) [])
               @ ''</small></div>'',
             ''green'')
   \<and> (\<forall>a b. toUpperCase a = toUpperCase b \<longrightarrow>
         render_test_status toUpperCase (d\<lparr>last_test_status := Some a\<rparr>) u
           = render_test_status toUpperCase (d\<lparr>last_test_status := Some b\<rparr>) u)"
proof -
  note up = upper_case_mapping_success [OF assms]
  have gen: "render_test_status toUpperCase (d\<lparr>last_test_status := Some a\<rparr>) u
           = render_test_status toUpperCase (d\<lparr>last_test_status := Some b\<rparr>) u"
    if "toUpperCase a = toUpperCase b" for a b
  proof -
    have "str_or (Some a) [] = a" "str_or (Some b) [] = b" by simp_all
    with that show ?thesis by (simp add: render_test_status_def del: str_or.simps)
  qed
  have eq: "render_test_status toUpperCase (d\<lparr>last_test_status := Some ''success''\<rparr>) u
     = render_test_status toUpperCase (d\<lparr>last_test_status := Some ''SUCCESS''\<rparr>) u"
    by (rule gen) (simp only: up)
  have al: "alerts (render_test_status toUpperCase (d\<lparr>last_test_status := Some ''success''\<rparr>) u)
     = alerts u @ [(''BK Connection: SUCCESS'', ''green'')]"
    by (simp add: render_test_status_alerts up)
  have ban: "intro (render_test_status toUpperCase (d\<lparr>last_test_status := Some ''success''\<rparr>) u)
     = Some (''<div>BK Connection Test: ''
               @ ''<span style='' @ [CHR 0x22] @ ''color:#178a2f;font-weight:600;''
               @ [CHR 0x22] @ ''>SUCCESS</span>''
               @ ''<br>'' @ escape_html (str_or (last_test_message d) [])
               @ ''<br><small>Last tested: '' @ escape_html (str_or (last_test_on d) [])
               @ ''</small></div>'',
             ''green'')"
    by (simp add: render_test_status_intro up)
  from eq al ban gen show ?thesis by blast
qed

theorem render_test_status_case_insensitive_witness:
  "render_test_status ascii_upper (sample_doc\<lparr>last_test_status := Some ''success''\<rparr>) sample_ui
     = render_test_status ascii_upper (sample_doc\<lparr>last_test_status := Some ''SUCCESS''\<rparr>)
         sample_ui
   \<and> alerts (render_test_status ascii_upper (sample_doc\<lparr>last_test_status := Some ''success''\<rparr>)
         sample_ui)
     = [(''BK Connection: SUCCESS'', ''green'')]
   \<and> intro (render_test_status ascii_upper (sample_doc\<lparr>last_test_status := Some ''success''\<rparr>)
         sample_ui)
     = Some (''<div>BK Connection Test: <span style='' @ [CHR 0x22]
               @ ''color:#178a2f;font-weight:600;'' @ [CHR 0x22] @ ''>SUCCESS</span>''
               @ ''<br>&lt;script&gt;x&lt;/script&gt;''
               @ ''<br><small>Last tested: 2024-05-01 10:00:00</small></div>'',
             ''green'')
   \<and> render_test_status ascii_upper (sample_doc\<lparr>last_test_status := Some ''SuCcEsS''\<rparr>)
         sample_ui
     = render_test_status ascii_upper (sample_doc\<lparr>last_test_status := Some ''success''\<rparr>)
         sample_ui"
proof -
  note h = render_test_status_case_insensitive
    [OF upper_case_mapping_ascii_upper, of sample_doc sample_ui]
  have up: "ascii_upper ''SuCcEsS'' = ascii_upper ''success''"
    by (simp add: ascii_upper_def ascii_upper_char_def)
  show ?thesis
    using h [THEN conjunct1] h [THEN conjunct2, THEN conjunct1]
      h [THEN conjunct2, THEN conjunct2, THEN conjunct1]
      h [THEN conjunct2, THEN conjunct2, THEN conjunct2, THEN spec, THEN spec,
        of "''SuCcEsS''" "''success''"] up
    by (simp add: sample_ui_def sample_doc_def escape_html_def escape_char_def)
qed

text \<open>
  The status that ends in the byte \<open>0xDF\<close> is a success for a mapping that sends
  that byte to \<^verbatim>\<open>SS\<close>: the green alert and the green banner.
\<close>

lemma render_test_status_sharp_s:
  "alerts (render_test_status sharp_s_upper
       (sample_doc\<lparr>last_test_status := Some (''succe'' @ [CHR 0xDF])\<rparr>) sample_ui)
     = [(''BK Connection: SUCCESS'', ''green'')]
   \<and> map_option snd (intro (render_test_status sharp_s_upper
       (sample_doc\<lparr>last_test_status := Some (''succe'' @ [CHR 0xDF])\<rparr>) sample_ui))
     = Some ''green''"
  by (simp add: render_test_status_intro render_test_status_alerts sharp_s_upper_def
      ascii_upper_char_def sample_ui_def)

text \<open>
  C9. When \<^verbatim>\<open>last_test_status\<close> is empty or unset, \<^verbatim>\<open>render_test_status\<close> does
  nothing: no alert is shown, the intro banner is not written, and a banner shown before
  stays as it was. All that is used of \<^verbatim>\<open>toUpperCase\<close> is that it leaves the empty
  string empty.
\<close>

theorem render_test_status_empty_noop:
  assumes "toUpperCase [] = []"
    and "last_test_status d = None \<or> last_test_status d = Some []"
  shows "render_test_status toUpperCase d u = u"
  using assms by (auto simp: render_test_status_def)

theorem render_test_status_empty_noop_witness:
  "render_test_status ascii_upper (sample_doc\<lparr>last_test_status := None\<rparr>) sample_ui = sample_ui
   \<and> intro (render_test_status ascii_upper (sample_doc\<lparr>last_test_status := Some []\<rparr>) sample_ui)
       = Some (''old banner'', ''blue'')"
  using render_test_status_empty_noop
      [of ascii_upper "sample_doc\<lparr>last_test_status := None\<rparr>" sample_ui]
    render_test_status_empty_noop
      [of ascii_upper "sample_doc\<lparr>last_test_status := Some []\<rparr>" sample_ui]
  by (simp add: sample_ui_def ascii_upper_def)

end
